theory Spec2Isabelle
  imports Complex_Main "HOL-Library.AList"
begin

section \<open>The authoritative game server (server.py)\<close>

subsection \<open>Decoded JSON values and the Python operations used on them\<close>

text \<open>
  The server works on whatever \<^verbatim>\<open>json.loads\<close> returns: \<^verbatim>\<open>None\<close>, a bool, a number, a
  string, a list or a dict. Numbers are modelled as reals (Python ints and floats
  compare and multiply across both; rounding, infinities and NaN are outside the
  model). A dict is an association list read through \<open>map_of\<close>.
\<close>

datatype json =
    JNull
  | JBool bool
  | JNum real
  | JStr string
  | JArr "json list"
  | JObj "(string \<times> json) list"

datatype error = AttributeError | KeyError | TypeError

text \<open>\<^verbatim>\<open>obj.get(key, default)\<close>: only a dict has the method.\<close>

fun dict_get :: "json \<Rightarrow> string \<Rightarrow> json \<Rightarrow> error + json" where
  "dict_get (JObj kvs) k d = Inr (case map_of kvs k of Some v \<Rightarrow> v | None \<Rightarrow> d)"
| "dict_get _ k d = Inl AttributeError"

text \<open>\<^verbatim>\<open>obj[key]\<close> with a string key: a missing key of a dict raises \<^verbatim>\<open>KeyError\<close>,
  every other value raises \<^verbatim>\<open>TypeError\<close>.\<close>

fun subscript :: "json \<Rightarrow> string \<Rightarrow> error + json" where
  "subscript (JObj kvs) k = (case map_of kvs k of Some v \<Rightarrow> Inr v | None \<Rightarrow> Inl KeyError)"
| "subscript _ k = Inl TypeError"

text \<open>\<^verbatim>\<open>abs(v)\<close>: defined on numbers (a bool is the int 0 or 1).\<close>

fun py_abs :: "json \<Rightarrow> error + real" where
  "py_abs (JNum r) = Inr \<bar>r\<bar>"
| "py_abs (JBool b) = Inr (if b then 1 else 0)"
| "py_abs _ = Inl TypeError"

text \<open>\<^verbatim>\<open>v * f\<close> for a float \<open>f\<close>: defined on numbers only.\<close>

fun py_mul_float :: "json \<Rightarrow> real \<Rightarrow> error + real" where
  "py_mul_float (JNum r) f = Inr (r * f)"
| "py_mul_float (JBool b) f = Inr ((if b then 1 else 0) * f)"
| "py_mul_float _ f = Inl TypeError"

subsection \<open>Player and server state\<close>

type_synonym ws = nat

record player =
  player_id :: string
  position :: "real \<times> real"
  velocity :: "real \<times> real"
  last_processed_input :: json

definition Player :: "string \<Rightarrow> player" where
  "Player pid = \<lparr>player_id = pid, position = (0, 0), velocity = (0, 0),
     last_processed_input = JNum 0\<rparr>"

definition vec_dict :: "real \<times> real \<Rightarrow> json" where
  "vec_dict v = JObj [(''x'', JNum (fst v)), (''y'', JNum (snd v))]"

definition to_dict :: "player \<Rightarrow> json" where
  "to_dict p = JObj [(''id'', JStr (player_id p)),
     (''position'', vec_dict (position p)),
     (''velocity'', vec_dict (velocity p)),
     (''lastProcessedInput'', last_processed_input p)]"

text \<open>The registry \<^verbatim>\<open>self.clients\<close> is a dict in insertion order.\<close>

record server =
  clients :: "(ws \<times> player) list"
  next_client_id :: nat

definition tick_rate :: real where
  "tick_rate = 20"

definition tick_interval :: real where
  "tick_interval = 1 / tick_rate"

definition GameServer :: server where
  "GameServer = \<lparr>clients = [], next_client_id = 0\<rparr>"

text \<open>What a handler prints and what it hands to \<^verbatim>\<open>websocket.send\<close>.\<close>

datatype event =
    Log_connected string
  | Log_disconnected string
  | Log_unknown_type json
  | Log_invalid_json
  | Log_invalid_input string
  | Send ws json

text \<open>\<^verbatim>\<open>str(n)\<close> of a client number.\<close>

fun str_nat :: "nat \<Rightarrow> string" where
  "str_nat n = (if n < 10 then [char_of (48 + n)]
     else str_nat (n div 10) @ [char_of (48 + n mod 10)])"

subsection \<open>Input validation and application\<close>

definition validate_input :: "json \<Rightarrow> error + bool" where
  "validate_input input_data =
    (case dict_get input_data ''movement'' (JObj []) of
       Inl e \<Rightarrow> Inl e
     | Inr movement \<Rightarrow>
        (case dict_get movement ''x'' (JNum 0) of
           Inl e \<Rightarrow> Inl e
         | Inr x \<Rightarrow>
            (case dict_get movement ''y'' (JNum 0) of
               Inl e \<Rightarrow> Inl e
             | Inr y \<Rightarrow>
                (case py_abs x of
                   Inl e \<Rightarrow> Inl e
                 | Inr ax \<Rightarrow>
                    if ax > 1 then Inr False
                    else (case py_abs y of
                            Inl e \<Rightarrow> Inl e
                          | Inr ay \<Rightarrow> if ay > 1 then Inr False else Inr True)))))"

definition speed :: real where
  "speed = 5"

definition clamp_world :: "real \<Rightarrow> real" where
  "clamp_world v = max (- 50) (min 50 v)"

text \<open>\<^verbatim>\<open>movement[axis] * speed\<close>.\<close>

definition axis_speed :: "json \<Rightarrow> string \<Rightarrow> error + real" where
  "axis_speed movement axis =
    (case subscript movement axis of
       Inl e \<Rightarrow> Inl e
     | Inr m \<Rightarrow> py_mul_float m speed)"

text \<open>
  \<^verbatim>\<open>apply_input\<close> mutates the player statement by statement, so an exception leaves the
  assignments made before it: the result is the exception, if any, and the player as
  it stands then. The two velocity assignments read \<^verbatim>\<open>movement["x"] * speed\<close> and
  \<^verbatim>\<open>movement["y"] * speed\<close> again; both have been evaluated without an exception by then.
\<close>

definition apply_input :: "player \<Rightarrow> json \<Rightarrow> real \<Rightarrow> error option \<times> player" where
  "apply_input p input_data delta_time =
    (case dict_get input_data ''movement'' (JObj [(''x'', JNum 0), (''y'', JNum 0)]) of
       Inl e \<Rightarrow> (Some e, p)
     | Inr movement \<Rightarrow>
        (case axis_speed movement ''x'' of
           Inl e \<Rightarrow> (Some e, p)
         | Inr sx \<Rightarrow>
            let p1 = p\<lparr>position := (fst (position p) + sx * delta_time, snd (position p))\<rparr> in
            (case axis_speed movement ''y'' of
               Inl e \<Rightarrow> (Some e, p1)
             | Inr sy \<Rightarrow>
                let p2 = p1\<lparr>position := (fst (position p1), snd (position p1) + sy * delta_time)\<rparr>;
                    p3 = p2\<lparr>velocity := (sx, sy)\<rparr>;
                    p4 = p3\<lparr>position := (clamp_world (fst (position p3)),
                                            clamp_world (snd (position p3)))\<rparr>
                in (None, p4))))"

subsection \<open>Message handlers\<close>

text \<open>A handler returns the exception it raised, if any, the server state it leaves and
  the events it produced, in order.\<close>

type_synonym outcome = "error option \<times> server \<times> event list"

definition handle_input :: "ws \<Rightarrow> json \<Rightarrow> server \<Rightarrow> outcome" where
  "handle_input websocket data s =
    (case map_of (clients s) websocket of
       None \<Rightarrow> (None, s, [])
     | Some p \<Rightarrow>
        (case dict_get data ''input'' (JObj []) of
           Inl e \<Rightarrow> (Some e, s, [])
         | Inr input_data \<Rightarrow>
            (case validate_input input_data of
               Inl e \<Rightarrow> (Some e, s, [])
             | Inr False \<Rightarrow> (None, s, [Log_invalid_input (player_id p)])
             | Inr True \<Rightarrow>
                (case apply_input p input_data tick_interval of
                   (Some e, p') \<Rightarrow>
                     (Some e, s\<lparr>clients := AList.update websocket p' (clients s)\<rparr>, [])
                 | (None, p') \<Rightarrow>
                     (case dict_get input_data ''sequenceNumber'' (JNum 0) of
                        Inl e \<Rightarrow>
                          (Some e, s\<lparr>clients := AList.update websocket p' (clients s)\<rparr>, [])
                      | Inr n \<Rightarrow>
                          (None,
                           s\<lparr>clients := AList.update websocket
                                (p'\<lparr>last_processed_input := n\<rparr>) (clients s)\<rparr>,
                           []))))))"

definition handle_ping :: "ws \<Rightarrow> json \<Rightarrow> server \<Rightarrow> outcome" where
  "handle_ping websocket data s =
    (case dict_get data ''sentAt'' JNull of
       Inl e \<Rightarrow> (Some e, s, [])
     | Inr t \<Rightarrow> (None, s, [Send websocket (JObj [(''type'', JStr ''pong''), (''sentAt'', t)])]))"

text \<open>
  \<^verbatim>\<open>json.loads\<close> is library code: its outcome on the received text is the input of the
  model, either \<^verbatim>\<open>JSONDecodeError\<close> or the decoded value.
\<close>

datatype decoded = JSONDecodeError | Decoded json

definition handle_message :: "ws \<Rightarrow> decoded \<Rightarrow> server \<Rightarrow> outcome" where
  "handle_message websocket message s =
    (case message of
       JSONDecodeError \<Rightarrow> (None, s, [Log_invalid_json])
     | Decoded data \<Rightarrow>
        (case dict_get data ''type'' JNull of
           Inl e \<Rightarrow> (Some e, s, [])
         | Inr message_type \<Rightarrow>
            if message_type = JStr ''input'' then handle_input websocket data s
            else if message_type = JStr ''ping'' then handle_ping websocket data s
            else (None, s, [Log_unknown_type message_type])))"

subsection \<open>Connection lifecycle\<close>

text \<open>\<^verbatim>\<open>broadcast\<close>: one send per registered connection, in registry order; failures of a
  send are swallowed.\<close>

definition broadcast :: "json \<Rightarrow> server \<Rightarrow> event list" where
  "broadcast message s =
    (if clients s = [] then [] else map (\<lambda>w. Send w message) (map fst (clients s)))"

text \<open>\<^verbatim>\<open>del self.clients[websocket]\<close>: deleting a key the dict does not hold raises
  \<^verbatim>\<open>KeyError\<close>.\<close>

definition del_client :: "ws \<Rightarrow> server \<Rightarrow> error option \<times> server" where
  "del_client websocket s =
    (case map_of (clients s) websocket of
       None \<Rightarrow> (Some KeyError, s)
     | Some p \<Rightarrow> (None, s\<lparr>clients := AList.delete websocket (clients s)\<rparr>))"

text \<open>The \<^verbatim>\<open>async for\<close> loop over the messages of one connection: it stops at the first
  exception a handler raises.\<close>

fun handle_messages :: "ws \<Rightarrow> decoded list \<Rightarrow> server \<Rightarrow> outcome" where
  "handle_messages websocket [] s = (None, s, [])"
| "handle_messages websocket (m # ms) s =
    (case handle_message websocket m s of
       (Some e, s', ev) \<Rightarrow> (Some e, s', ev)
     | (None, s', ev) \<Rightarrow>
        (case handle_messages websocket ms s' of
           (r, s'', ev') \<Rightarrow> (r, s'', ev @ ev')))"

text \<open>The \<^verbatim>\<open>finally\<close> block of \<^verbatim>\<open>handle_client\<close>; \<open>pending\<close> is the exception in flight,
  which an exception of the block itself replaces.\<close>

definition clean_up :: "ws \<Rightarrow> string \<Rightarrow> error option \<Rightarrow> server \<Rightarrow> outcome" where
  "clean_up websocket client_id pending s =
    (case del_client websocket s of
       (Some e, s') \<Rightarrow> (Some e, s', [])
     | (None, s') \<Rightarrow>
        (pending, s',
         broadcast (JObj [(''type'', JStr ''playerLeft''), (''playerId'', JStr client_id)]) s'))"

text \<open>
  \<^verbatim>\<open>handle_client\<close> for a connection that delivers the messages \<open>ms\<close> and then closes;
  \<open>abnormal\<close> tells whether the close raises \<^verbatim>\<open>ConnectionClosed\<close> in the loop (caught and
  logged) or ends the iteration silently.
\<close>

definition handle_client :: "ws \<Rightarrow> decoded list \<Rightarrow> bool \<Rightarrow> server \<Rightarrow> outcome" where
  "handle_client websocket ms abnormal s =
    (let client_id = str_nat (next_client_id s);
         s1 = s\<lparr>next_client_id := next_client_id s + 1\<rparr>;
         p = Player client_id;
         s2 = s1\<lparr>clients := AList.update websocket p (clients s1)\<rparr>;
         ev0 = [Log_connected client_id,
                Send websocket (JObj [(''type'', JStr ''connected''),
                  (''clientId'', JStr client_id), (''player'', to_dict p)])]
     in case handle_messages websocket ms s2 of
          (r, s3, ev1) \<Rightarrow>
            let ev2 = (if r = None \<and> abnormal then [Log_disconnected client_id] else [])
            in case clean_up websocket client_id r s3 of
                 (r', s4, ev3) \<Rightarrow> (r', s4, ev0 @ ev1 @ ev2 @ ev3))"

section \<open>The network emulation proxy (latency-simulator.py)\<close>

subsection \<open>Simulator state and random draws\<close>

record simulator =
  target_host :: string
  target_port :: int
  listen_port :: int
  base_latency_ms :: real
  packet_loss_rate :: real
  jitter_ms :: real
  packets_sent :: nat
  packets_dropped :: nat
  total_delay :: real
  draws :: nat

definition LatencySimulator ::
  "string \<Rightarrow> int \<Rightarrow> int \<Rightarrow> real \<Rightarrow> real \<Rightarrow> real \<Rightarrow> simulator" where
  "LatencySimulator th tp lp latency_ms packet_loss jitter =
    \<lparr>target_host = th, target_port = tp, listen_port = lp,
     base_latency_ms = latency_ms, packet_loss_rate = packet_loss, jitter_ms = jitter,
     packets_sent = 0, packets_dropped = 0, total_delay = 0, draws = 0\<rparr>"

text \<open>
  The generator is a fixed sequence \<open>src\<close> of the values \<^verbatim>\<open>random.random()\<close> returns, and
  the field \<open>draws\<close> counts how many have been taken. \<^verbatim>\<open>random.uniform(a, b)\<close> is
  \<^verbatim>\<open>a + (b - a) * random()\<close>, as in the standard library.
\<close>

type_synonym rng = "nat \<Rightarrow> real"

definition random_random :: "rng \<Rightarrow> simulator \<Rightarrow> real \<times> simulator" where
  "random_random src sim = (src (draws sim), sim\<lparr>draws := draws sim + 1\<rparr>)"

definition random_uniform :: "rng \<Rightarrow> real \<Rightarrow> real \<Rightarrow> simulator \<Rightarrow> real \<times> simulator" where
  "random_uniform src a b sim =
    (case random_random src sim of (r, sim') \<Rightarrow> (a + (b - a) * r, sim'))"

subsection \<open>Delay and drop decisions\<close>

text \<open>The value before the conversion to seconds: the local \<^verbatim>\<open>delay\<close> of
  \<^verbatim>\<open>calculate_delay\<close>, in milliseconds.\<close>

definition delay_ms :: "rng \<Rightarrow> simulator \<Rightarrow> real \<times> simulator" where
  "delay_ms src sim =
    (if jitter_ms sim > 0
     then (case random_uniform src (- jitter_ms sim) (jitter_ms sim) sim of
             (jitter, sim') \<Rightarrow> (max 0 (base_latency_ms sim + jitter), sim'))
     else (base_latency_ms sim, sim))"

definition calculate_delay :: "rng \<Rightarrow> simulator \<Rightarrow> real \<times> simulator" where
  "calculate_delay src sim = (case delay_ms src sim of (d, sim') \<Rightarrow> (d / 1000, sim'))"

definition should_drop_packet :: "rng \<Rightarrow> simulator \<Rightarrow> bool \<times> simulator" where
  "should_drop_packet src sim =
    (case random_random src sim of (r, sim') \<Rightarrow> (r < packet_loss_rate sim, sim'))"

subsection \<open>The forwarding loop\<close>

text \<open>What one forwarding loop does to the outside: it reports a drop, sleeps, writes a
  chunk to the destination, and closes the writer at the end.\<close>

datatype 'a action =
    Dropped
  | Sleep real
  | Write "'a list"
  | Close

text \<open>The body of the loop for one chunk that has been read (not the end of stream).\<close>

definition forward_chunk :: "rng \<Rightarrow> 'a list \<Rightarrow> simulator \<Rightarrow> simulator \<times> 'a action list" where
  "forward_chunk src data sim =
    (let sim1 = sim\<lparr>packets_sent := packets_sent sim + 1\<rparr> in
     case should_drop_packet src sim1 of
       (True, sim2) \<Rightarrow> (sim2\<lparr>packets_dropped := packets_dropped sim2 + 1\<rparr>, [Dropped])
     | (False, sim2) \<Rightarrow>
        (case calculate_delay src sim2 of
           (delay, sim3) \<Rightarrow>
             (sim3\<lparr>total_delay := total_delay sim3 + delay\<rparr>,
              (if delay > 0 then [Sleep delay] else []) @ [Write data])))"

text \<open>
  \<^verbatim>\<open>forward\<close> over the reads of one direction: the list holds what successive
  \<^verbatim>\<open>reader.read(4096)\<close> calls return, and a read past its end returns the empty bytes
  of end of stream. An empty read ends the loop; the writer is closed in the
  \<^verbatim>\<open>finally\<close> block.
\<close>

fun forward :: "rng \<Rightarrow> 'a list list \<Rightarrow> simulator \<Rightarrow> simulator \<times> 'a action list" where
  "forward src [] sim = (sim, [Close])"
| "forward src (data # rest) sim =
    (if data = [] then (sim, [Close])
     else (case forward_chunk src data sim of
             (sim', acts) \<Rightarrow>
               (case forward src rest sim' of
                  (sim'', acts') \<Rightarrow> (sim'', acts @ acts'))))"

text \<open>The chunks a run of the loop wrote to the destination, in order.\<close>

fun written :: "'a action list \<Rightarrow> 'a list list" where
  "written [] = []"
| "written (Write d # as) = d # written as"
| "written (_ # as) = written as"

text \<open>
  The time a run of the loop spent in \<^verbatim>\<open>asyncio.sleep\<close> on each chunk it wrote. Every
  iteration ends with a drop or a write, so the sleeps since the last of these are
  the ones of the current chunk; \<open>delays_since t\<close> carries their sum \<open>t\<close>.
\<close>

fun delays_since :: "real \<Rightarrow> 'a action list \<Rightarrow> real list" where
  "delays_since t [] = []"
| "delays_since t (Sleep d # as) = delays_since (t + d) as"
| "delays_since t (Write x # as) = t # delays_since 0 as"
| "delays_since t (Dropped # as) = delays_since 0 as"
| "delays_since t (Close # as) = delays_since t as"

definition imposed_delays :: "'a action list \<Rightarrow> real list" where
  "imposed_delays as = delays_since 0 as"

subsection \<open>Command line entry point\<close>

text \<open>
  \<^verbatim>\<open>--packet-loss\<close> is parsed with \<^verbatim>\<open>type=float\<close>, so the value is any Python float: a
  number, an infinity or NaN. The two comparisons of \<^verbatim>\<open>main\<close> with the literals 0 and 1
  are false on NaN.
\<close>

datatype pyfloat = Float real | PosInf | NegInf | NaN

fun float_less :: "pyfloat \<Rightarrow> real \<Rightarrow> bool" where
  "float_less (Float r) c = (r < c)"
| "float_less NegInf c = True"
| "float_less PosInf c = False"
| "float_less NaN c = False"

fun float_greater :: "pyfloat \<Rightarrow> real \<Rightarrow> bool" where
  "float_greater (Float r) c = (r > c)"
| "float_greater PosInf c = True"
| "float_greater NegInf c = False"
| "float_greater NaN c = False"

record args =
  arg_target_host :: string
  arg_target_port :: int
  arg_listen_port :: int
  arg_latency :: int
  arg_jitter :: int
  arg_packet_loss :: pyfloat

text \<open>
  \<^verbatim>\<open>parser.parse_args()\<close> is library code: its outcome on the command line is the input
  of the model. It either refuses the command line, prints the usage and exits the
  process with status 2, or returns the parsed arguments.
\<close>

datatype command_line = Usage_error | Parsed args

text \<open>
  \<^verbatim>\<open>main\<close> ends in one of three ways: the parser has exited the process; \<^verbatim>\<open>main\<close> has
  printed a line and returned; or it has handed the six parsed arguments, unchanged,
  to the \<^verbatim>\<open>LatencySimulator\<close> constructor and runs \<^verbatim>\<open>simulator.start()\<close>, the only place
  that opens the listening socket.
\<close>

datatype main_result =
    Exited nat
  | Returned "string list"
  | Started args

definition main :: "command_line \<Rightarrow> main_result" where
  "main cl =
    (case cl of
       Usage_error \<Rightarrow> Exited 2
     | Parsed a \<Rightarrow>
        if float_less (arg_packet_loss a) 0 \<or> float_greater (arg_packet_loss a) 1
        then Returned [''Error: Packet loss must be between 0.0 and 1.0'']
        else if arg_latency a < 0
        then Returned [''Error: Latency must be >= 0'']
        else Started a)"

definition opens_listening_socket :: "main_result \<Rightarrow> bool" where
  "opens_listening_socket r =
    (case r of Exited n \<Rightarrow> False | Returned out \<Rightarrow> False | Started a \<Rightarrow> True)"

text \<open>
  The script ends with \<^verbatim>\<open>if __name__ == "__main__": main()\<close>: when \<^verbatim>\<open>main\<close> returns, the
  interpreter exits with status 0. Nothing in the script calls \<^verbatim>\<open>sys.exit\<close>. A started
  simulator serves until it is interrupted, so it has no status of its own here.
\<close>

definition exit_status :: "main_result \<Rightarrow> nat option" where
  "exit_status r =
    (case r of Exited n \<Rightarrow> Some n | Returned out \<Rightarrow> Some 0 | Started a \<Rightarrow> None)"

section \<open>Properties of the game server\<close>

subsection \<open>Applying a valid input\<close>

text \<open>
  C1. For a command whose movement object holds two numeric axes \<open>mx\<close> and \<open>my\<close>, both in
  \<open>[-1, 1]\<close>, and a non-negative \<open>delta_time\<close>, \<^verbatim>\<open>apply_input\<close> raises nothing, sets the
  velocity to \<open>(mx * 5, my * 5)\<close> and the position to the per-axis clamp into
  \<open>[-50, 50]\<close> of the old position plus velocity times \<open>delta_time\<close>; the new position lies
  in \<open>[-50, 50] \<times> [-50, 50]\<close>, and the identity and the last processed input are left as
  they were. The two scenarios of the specification are the instances of the witness:
  from \<open>(0, 0)\<close> the input \<open>(1, 0)\<close> over \<open>0.1\<close> gives position \<open>(0.5, 0)\<close> and velocity
  \<open>(5, 0)\<close>, and from \<open>(49.8, 0)\<close> it gives position \<open>(50, 0)\<close>.
\<close>

theorem apply_input_valid:
  assumes mv: "map_of inp ''movement'' = Some (JObj mv)"
    and x: "map_of mv ''x'' = Some (JNum mx)"
    and y: "map_of mv ''y'' = Some (JNum my)"
    and "\<bar>mx\<bar> \<le> 1" and "\<bar>my\<bar> \<le> 1" and "0 \<le> dt"
  shows "\<exists>p'. apply_input p (JObj inp) dt = (None, p')
      \<and> velocity p' = (mx * 5, my * 5)
      \<and> position p' = (max (- 50) (min 50 (fst (position p) + mx * 5 * dt)),
                       max (- 50) (min 50 (snd (position p) + my * 5 * dt)))
      \<and> - 50 \<le> fst (position p') \<and> fst (position p') \<le> 50
      \<and> - 50 \<le> snd (position p') \<and> snd (position p') \<le> 50
      \<and> player_id p' = player_id p
      \<and> last_processed_input p' = last_processed_input p"
  using mv x y
  by (simp add: apply_input_def axis_speed_def speed_def clamp_world_def Let_def)

theorem apply_input_valid_witness:
  "apply_input (Player ''0'')
     (JObj [(''sequenceNumber'', JNum 1),
            (''movement'', JObj [(''x'', JNum 1), (''y'', JNum 0)])])
     (1 / 10)
   = (None, \<lparr>player_id = ''0'', position = (1 / 2, 0), velocity = (5, 0),
        last_processed_input = JNum 0\<rparr>)
   \<and> apply_input ((Player ''0'')\<lparr>position := (249 / 5, 0)\<rparr>)
     (JObj [(''sequenceNumber'', JNum 2),
            (''movement'', JObj [(''x'', JNum 1), (''y'', JNum 0)])])
     (1 / 10)
   = (None, \<lparr>player_id = ''0'', position = (50, 0), velocity = (5, 0),
        last_processed_input = JNum 0\<rparr>)"
  using apply_input_valid [of "[(''sequenceNumber'', JNum 1),
            (''movement'', JObj [(''x'', JNum 1), (''y'', JNum 0)])]"
      "[(''x'', JNum 1), (''y'', JNum 0)]" 1 0 "1 / 10" "Player ''0''"]
    apply_input_valid [of "[(''sequenceNumber'', JNum 2),
            (''movement'', JObj [(''x'', JNum 1), (''y'', JNum 0)])]"
      "[(''x'', JNum 1), (''y'', JNum 0)]" 1 0 "1 / 10"
      "(Player ''0'')\<lparr>position := (249 / 5, 0)\<rparr>"]
  by (auto simp add: Player_def)

subsection \<open>Auxiliary facts\<close>

lemma validate_input_numeric:
  assumes "map_of inp ''movement'' = Some (JObj mv)"
    and "map_of mv ''x'' = map_option JNum xo"
    and "map_of mv ''y'' = map_option JNum yo"
  shows "validate_input (JObj inp) =
    Inr (\<not> (\<bar>case xo of None \<Rightarrow> 0 | Some r \<Rightarrow> r\<bar> > 1 \<or> \<bar>case yo of None \<Rightarrow> 0 | Some r \<Rightarrow> r\<bar> > 1))"
  using assms by (cases xo; cases yo) (simp_all add: validate_input_def)

lemma str_nat_0: "str_nat 0 = ''0''"
  by code_simp

subsection \<open>Rejected commands\<close>

text \<open>
  When each axis of the movement object is absent (read as 0) or a number and one of
  them has an absolute value greater than 1, \<^verbatim>\<open>validate_input\<close> returns \<^verbatim>\<open>False\<close>, and
  \<^verbatim>\<open>handle_input\<close> on a registered connection raises nothing, leaves the whole server
  state as it was and hands nothing to \<^verbatim>\<open>websocket.send\<close>.
\<close>

lemma handle_input_rejects_numeric_out_of_range:
  assumes "map_of (clients s) w = Some p"
    and "map_of data ''input'' = Some (JObj inp)"
    and "map_of inp ''movement'' = Some (JObj mv)"
    and "map_of mv ''x'' = map_option JNum xo"
    and "map_of mv ''y'' = map_option JNum yo"
    and "\<bar>case xo of None \<Rightarrow> 0 | Some r \<Rightarrow> r\<bar> > 1 \<or> \<bar>case yo of None \<Rightarrow> 0 | Some r \<Rightarrow> r\<bar> > 1"
  shows "validate_input (JObj inp) = Inr False
    \<and> handle_input w (JObj data) s = (None, s, [Log_invalid_input (player_id p)])"
  using assms validate_input_numeric [of inp mv xo yo]
  by (simp add: handle_input_def)

text \<open>
  C2. The command with movement \<^verbatim>\<open>{"x": null, "y": 2}\<close> has an axis of absolute value
  greater than 1, but \<^verbatim>\<open>validate_input\<close> evaluates \<^verbatim>\<open>abs(x)\<close> first and raises \<^verbatim>\<open>TypeError\<close>
  instead of returning \<^verbatim>\<open>False\<close>. With the axes the other way round,
  \<^verbatim>\<open>{"x": 2, "y": null}\<close>, the \<^verbatim>\<open>or\<close> stops at \<^verbatim>\<open>abs(x) > 1\<close> and the command is rejected.
  The exception leaves \<^verbatim>\<open>handle_input\<close> and \<^verbatim>\<open>handle_message\<close> uncaught, and in
  \<^verbatim>\<open>handle_client\<close> the \<^verbatim>\<open>finally\<close> block then deletes the registry entry of the player.
\<close>

theorem validate_input_null_axis_raises:
  "validate_input (JObj [(''sequenceNumber'', JNum 1),
       (''movement'', JObj [(''x'', JNull), (''y'', JNum 2)])]) = Inl TypeError
   \<and> validate_input (JObj [(''sequenceNumber'', JNum 1),
       (''movement'', JObj [(''x'', JNum 2), (''y'', JNull)])]) = Inr False
   \<and> handle_message 0
        (Decoded (JObj [(''type'', JStr ''input''),
           (''input'', JObj [(''sequenceNumber'', JNum 1),
              (''movement'', JObj [(''x'', JNull), (''y'', JNum 2)])])]))
        \<lparr>clients = [(0, Player ''0'')], next_client_id = 1\<rparr>
      = (Some TypeError, \<lparr>clients = [(0, Player ''0'')], next_client_id = 1\<rparr>, [])
   \<and> handle_client 0
        [Decoded (JObj [(''type'', JStr ''input''),
           (''input'', JObj [(''sequenceNumber'', JNum 1),
              (''movement'', JObj [(''x'', JNull), (''y'', JNum 2)])])])]
        False GameServer
      = (Some TypeError, \<lparr>clients = [], next_client_id = 1\<rparr>,
         [Log_connected ''0'',
          Send 0 (JObj [(''type'', JStr ''connected''), (''clientId'', JStr ''0''),
                        (''player'', to_dict (Player ''0''))])])"
  by (simp add: validate_input_def handle_message_def handle_input_def handle_client_def
      clean_up_def del_client_def broadcast_def GameServer_def Let_def str_nat_0
      del: str_nat.simps)

subsection \<open>Commands with absent fields\<close>

text \<open>
  C3. A command whose movement object holds only the axis \<open>x\<close> passes
  \<^verbatim>\<open>validate_input\<close>, which reads the missing \<open>y\<close> as 0, but \<^verbatim>\<open>apply_input\<close> subscripts
  \<^verbatim>\<open>movement["y"]\<close> and raises \<^verbatim>\<open>KeyError\<close> after it has moved the player along \<open>x\<close>;
  the exception leaves \<^verbatim>\<open>handle_message\<close> uncaught.
\<close>

theorem apply_input_missing_axis_raises:
  "validate_input (JObj [(''sequenceNumber'', JNum 1), (''movement'', JObj [(''x'', JNum 1)])]) = Inr True
   \<and> apply_input (Player ''0'')
        (JObj [(''sequenceNumber'', JNum 1), (''movement'', JObj [(''x'', JNum 1)])]) tick_interval
      = (Some KeyError, (Player ''0'')\<lparr>position := (1 / 4, 0)\<rparr>)
   \<and> handle_message 0
        (Decoded (JObj [(''type'', JStr ''input''),
           (''input'', JObj [(''sequenceNumber'', JNum 1), (''movement'', JObj [(''x'', JNum 1)])])]))
        \<lparr>clients = [(0, Player ''0'')], next_client_id = 1\<rparr>
      = (Some KeyError,
         \<lparr>clients = [(0, (Player ''0'')\<lparr>position := (1 / 4, 0)\<rparr>)], next_client_id = 1\<rparr>, [])"
  by (simp add: validate_input_def apply_input_def axis_speed_def speed_def tick_interval_def
      tick_rate_def handle_message_def handle_input_def Player_def)

subsection \<open>The last processed input\<close>

text \<open>
  C4. On a registered connection, for a command that carries the sequence number \<open>n\<close>:
  when the command passes \<^verbatim>\<open>validate_input\<close> and \<^verbatim>\<open>apply_input\<close> raises nothing,
  \<^verbatim>\<open>handle_input\<close> raises nothing and the player's last processed input is \<open>n\<close> afterwards,
  whatever it was before (there is no comparison with the stored value); when
  \<^verbatim>\<open>validate_input\<close> returns \<^verbatim>\<open>False\<close>, the server state, hence the last processed input, is
  unchanged.
\<close>

theorem handle_input_records_sequence_number:
  assumes "map_of (clients s) w = Some p"
    and "map_of data ''input'' = Some (JObj inp)"
    and "map_of inp ''sequenceNumber'' = Some n"
  shows "(validate_input (JObj inp) = Inr True
          \<and> fst (apply_input p (JObj inp) tick_interval) = None
        \<longrightarrow> (\<exists>s' ev p'. handle_input w (JObj data) s = (None, s', ev)
              \<and> map_of (clients s') w = Some p' \<and> last_processed_input p' = n))
      \<and> (validate_input (JObj inp) = Inr False
        \<longrightarrow> (\<exists>ev. handle_input w (JObj data) s = (None, s, ev)))"
  using assms
  by (auto simp add: handle_input_def update_Some_unfold split: prod.splits option.splits)

theorem handle_input_records_sequence_number_witness:
  "handle_input 0
     (JObj [(''type'', JStr ''input''),
            (''input'', JObj [(''sequenceNumber'', JNum 3),
                              (''movement'', JObj [(''x'', JNum 1), (''y'', JNum 0)])])])
     \<lparr>clients = [(0, (Player ''0'')\<lparr>last_processed_input := JNum 7\<rparr>)], next_client_id = 1\<rparr>
   = (None,
      \<lparr>clients = [(0, \<lparr>player_id = ''0'', position = (1 / 4, 0), velocity = (5, 0),
                        last_processed_input = JNum 3\<rparr>)], next_client_id = 1\<rparr>, [])
   \<and> handle_input 0
     (JObj [(''type'', JStr ''input''),
            (''input'', JObj [(''sequenceNumber'', JNum 3),
                              (''movement'', JObj [(''x'', JNum 1), (''y'', JNum 2)])])])
     \<lparr>clients = [(0, (Player ''0'')\<lparr>last_processed_input := JNum 7\<rparr>)], next_client_id = 1\<rparr>
   = (None,
      \<lparr>clients = [(0, (Player ''0'')\<lparr>last_processed_input := JNum 7\<rparr>)], next_client_id = 1\<rparr>,
      [Log_invalid_input ''0''])"
  using handle_input_records_sequence_number [of
      "\<lparr>clients = [(0, (Player ''0'')\<lparr>last_processed_input := JNum 7\<rparr>)], next_client_id = 1\<rparr>"
      0 "(Player ''0'')\<lparr>last_processed_input := JNum 7\<rparr>"
      "[(''type'', JStr ''input''),
            (''input'', JObj [(''sequenceNumber'', JNum 3),
                              (''movement'', JObj [(''x'', JNum 1), (''y'', JNum 0)])])]"
      "[(''sequenceNumber'', JNum 3), (''movement'', JObj [(''x'', JNum 1), (''y'', JNum 0)])]"
      "JNum 3"]
    handle_input_records_sequence_number [of
      "\<lparr>clients = [(0, (Player ''0'')\<lparr>last_processed_input := JNum 7\<rparr>)], next_client_id = 1\<rparr>"
      0 "(Player ''0'')\<lparr>last_processed_input := JNum 7\<rparr>"
      "[(''type'', JStr ''input''),
            (''input'', JObj [(''sequenceNumber'', JNum 3),
                              (''movement'', JObj [(''x'', JNum 1), (''y'', JNum 2)])])]"
      "[(''sequenceNumber'', JNum 3), (''movement'', JObj [(''x'', JNum 1), (''y'', JNum 2)])]"
      "JNum 3"]
  by (simp add: validate_input_def apply_input_def axis_speed_def speed_def tick_interval_def
      tick_rate_def handle_input_def Player_def clamp_world_def)

subsection \<open>Malformed messages\<close>

text \<open>
  C7. A message that decodes to a JSON value other than an object (here the empty
  list) makes \<^verbatim>\<open>handle_message\<close> raise \<^verbatim>\<open>AttributeError\<close>, which its
  \<^verbatim>\<open>except json.JSONDecodeError\<close> does not catch; in \<^verbatim>\<open>handle_client\<close> the exception ends the
  message loop, the \<^verbatim>\<open>finally\<close> block deletes the registry entry, and the exception
  leaves the handler.
\<close>

theorem handle_message_non_dict_raises:
  "handle_message w (Decoded (JArr [])) s = (Some AttributeError, s, [])
   \<and> handle_client 0 [Decoded (JArr [])] False GameServer
     = (Some AttributeError, \<lparr>clients = [], next_client_id = 1\<rparr>,
        [Log_connected ''0'',
         Send 0 (JObj [(''type'', JStr ''connected''), (''clientId'', JStr ''0''),
                       (''player'', to_dict (Player ''0''))])])"
  by (simp add: handle_message_def handle_client_def clean_up_def del_client_def broadcast_def
      GameServer_def Let_def str_nat_0 del: str_nat.simps)

subsection \<open>Removing a connection\<close>

text \<open>
  The handlers never add or remove a registry key: \<^verbatim>\<open>handle_input\<close> only replaces the
  player stored under a key the registry already holds.
\<close>

lemma handle_input_keys:
  "map fst (clients (fst (snd (handle_input w data s)))) = map fst (clients s)"
proof (cases "map_of (clients s) w")
  case None
  then show ?thesis by (simp add: handle_input_def)
next
  case (Some p)
  then have "(w, p) \<in> set (clients s)" by (rule map_of_SomeD)
  then have "w \<in> fst ` set (clients s)" by force
  then have keys: "map fst (AList.update w q (clients s)) = map fst (clients s)" for q
    by (simp add: AList.update_keys)
  from Some show ?thesis
    by (simp add: handle_input_def keys split: sum.splits bool.splits prod.splits option.splits)
qed

lemma handle_message_keys:
  "map fst (clients (fst (snd (handle_message w m s)))) = map fst (clients s)"
  by (simp add: handle_message_def handle_ping_def handle_input_keys
      split: decoded.splits sum.splits)

lemma handle_messages_keys:
  "map fst (clients (fst (snd (handle_messages w ms s)))) = map fst (clients s)"
proof (induction ms arbitrary: s)
  case Nil
  then show ?case by simp
next
  case (Cons m ms)
  obtain r s' ev where step: "handle_message w m s = (r, s', ev)"
    by (cases "handle_message w m s") auto
  with handle_message_keys [of w m s] have keys: "map fst (clients s') = map fst (clients s)"
    by simp
  show ?case
  proof (cases r)
    case None
    with step keys Cons.IH [of s'] show ?thesis by (simp add: split_def)
  next
    case (Some e)
    with step keys show ?thesis by simp
  qed
qed

text \<open>
  The only removal, \<^verbatim>\<open>del self.clients[websocket]\<close> in the \<^verbatim>\<open>finally\<close> block of
  \<^verbatim>\<open>handle_client\<close>, always finds the entry that the same call inserted: the handler ends
  with the exception of its message loop, if any, never with one of the removal, and
  the registry holds no entry for the connection afterwards.
\<close>

lemma handle_client_removes_entry:
  "fst (handle_client w ms abnormal s) =
     fst (handle_messages w ms
       (s\<lparr>next_client_id := next_client_id s + 1,
          clients := AList.update w (Player (str_nat (next_client_id s))) (clients s)\<rparr>))
   \<and> map_of (clients (fst (snd (handle_client w ms abnormal s)))) w = None"
proof -
  let ?s2 = "s\<lparr>next_client_id := next_client_id s + 1,
          clients := AList.update w (Player (str_nat (next_client_id s))) (clients s)\<rparr>"
  obtain r s3 ev where loop: "handle_messages w ms ?s2 = (r, s3, ev)"
    by (cases "handle_messages w ms ?s2") auto
  with handle_messages_keys [of w ms ?s2]
  have "map fst (clients s3) = map fst (AList.update w (Player (str_nat (next_client_id s))) (clients s))"
    by simp
  then have "w \<in> set (map fst (clients s3))"
    by (simp add: AList.update_keys)
  then have "map_of (clients s3) w \<noteq> None"
    by (simp add: map_of_eq_None_iff)
  then obtain p where held: "map_of (clients s3) w = Some p" by auto
  have gone: "map_of (AList.delete w (clients s3)) w = None"
    by (simp add: AList.delete_conv')
  from loop held gone show ?thesis
    by (simp add: handle_client_def clean_up_def del_client_def Let_def del: str_nat.simps)
qed

subsection \<open>Input on an unregistered connection\<close>

text \<open>
  C10. On a connection that has no registry entry, \<^verbatim>\<open>handle_input\<close> returns at once for
  every message: it raises nothing, produces no event and leaves the server state, the
  registry and every player in it, exactly as it was.
\<close>

theorem handle_input_unregistered:
  "map_of (clients s) w = None \<Longrightarrow> handle_input w data s = (None, s, [])"
  by (simp add: handle_input_def)

theorem handle_input_unregistered_witness:
  "handle_input 1
     (JObj [(''type'', JStr ''input''),
            (''input'', JObj [(''sequenceNumber'', JNum 3),
                              (''movement'', JObj [(''x'', JNum 1), (''y'', JNum 0)])])])
     \<lparr>clients = [(0, Player ''0'')], next_client_id = 1\<rparr>
   = (None, \<lparr>clients = [(0, Player ''0'')], next_client_id = 1\<rparr>, [])"
  using handle_input_unregistered [of "\<lparr>clients = [(0, Player ''0'')], next_client_id = 1\<rparr>" 1]
  by simp

section \<open>Properties of the proxy\<close>

subsection \<open>One chunk through the loop\<close>

lemma written_append: "written (as @ bs) = written as @ written bs"
  by (induction as rule: written.induct) simp_all

lemma forward_chunk_dropped:
  assumes "src (draws sim) < packet_loss_rate sim"
  shows "forward_chunk src data sim =
    (sim\<lparr>packets_sent := packets_sent sim + 1, draws := draws sim + 1,
         packets_dropped := packets_dropped sim + 1\<rparr>, [Dropped])"
  using assms by (simp add: forward_chunk_def should_drop_packet_def random_random_def)

lemma forward_chunk_kept:
  assumes "\<not> src (draws sim) < packet_loss_rate sim"
  shows "forward_chunk src data sim =
    (case calculate_delay src (sim\<lparr>packets_sent := packets_sent sim + 1, draws := draws sim + 1\<rparr>) of
       (delay, sim3) \<Rightarrow>
         (sim3\<lparr>total_delay := total_delay sim3 + delay\<rparr>,
          (if delay > 0 then [Sleep delay] else []) @ [Write data]))"
  using assms by (simp add: forward_chunk_def should_drop_packet_def random_random_def)

lemma calculate_delay_config:
  "packets_sent (snd (calculate_delay src sim)) = packets_sent sim"
  "packets_dropped (snd (calculate_delay src sim)) = packets_dropped sim"
  "packet_loss_rate (snd (calculate_delay src sim)) = packet_loss_rate sim"
  "base_latency_ms (snd (calculate_delay src sim)) = base_latency_ms sim"
  "jitter_ms (snd (calculate_delay src sim)) = jitter_ms sim"
  by (simp_all add: calculate_delay_def delay_ms_def random_uniform_def random_random_def)

lemma forward_chunk_config:
  "packet_loss_rate (fst (forward_chunk src data sim)) = packet_loss_rate sim"
  "base_latency_ms (fst (forward_chunk src data sim)) = base_latency_ms sim"
  "jitter_ms (fst (forward_chunk src data sim)) = jitter_ms sim"
  "packets_sent (fst (forward_chunk src data sim)) = packets_sent sim + 1"
  by (cases "src (draws sim) < packet_loss_rate sim";
      simp add: forward_chunk_dropped forward_chunk_kept split_def calculate_delay_config)+

lemma forward_chunk_kept_effect:
  assumes "\<not> src (draws sim) < packet_loss_rate sim"
  shows "written (snd (forward_chunk src data sim)) = [data]"
    and "packets_dropped (fst (forward_chunk src data sim)) = packets_dropped sim"
  using assms by (simp_all add: forward_chunk_kept split_def calculate_delay_config)

subsection \<open>Dropping chunks\<close>

lemma forward_all_dropped:
  assumes "\<forall>n. src n < 1" and "packet_loss_rate sim = 1" and "[] \<notin> set chunks"
  shows "written (snd (forward src chunks sim)) = []
    \<and> packets_sent (fst (forward src chunks sim)) = packets_sent sim + length chunks
    \<and> packets_dropped (fst (forward src chunks sim)) = packets_dropped sim + length chunks"
  using assms
proof (induction chunks arbitrary: sim)
  case Nil
  then show ?case by simp
next
  case (Cons data rest)
  let ?sim' = "sim\<lparr>packets_sent := packets_sent sim + 1, draws := draws sim + 1,
         packets_dropped := packets_dropped sim + 1\<rparr>"
  from Cons.prems have drop: "src (draws sim) < packet_loss_rate sim" by simp
  have step: "forward_chunk src data sim = (?sim', [Dropped])"
    using drop by (simp add: forward_chunk_dropped)
  from Cons.prems have "packet_loss_rate ?sim' = 1" and "[] \<notin> set rest" by simp_all
  with Cons.IH [of ?sim'] Cons.prems(1)
  have IH: "written (snd (forward src rest ?sim')) = []
    \<and> packets_sent (fst (forward src rest ?sim')) = packets_sent ?sim' + length rest
    \<and> packets_dropped (fst (forward src rest ?sim')) = packets_dropped ?sim' + length rest"
    by blast
  from Cons.prems have "data \<noteq> []" by auto
  with step IH show ?case by (simp add: split_def)
qed

lemma forward_none_dropped:
  assumes "\<forall>n. 0 \<le> src n" and "packet_loss_rate sim = 0" and "[] \<notin> set chunks"
  shows "written (snd (forward src chunks sim)) = chunks
    \<and> packets_dropped (fst (forward src chunks sim)) = packets_dropped sim"
  using assms
proof (induction chunks arbitrary: sim)
  case Nil
  then show ?case by simp
next
  case (Cons data rest)
  let ?sim' = "fst (forward_chunk src data sim)"
  from Cons.prems have keep: "\<not> src (draws sim) < packet_loss_rate sim"
    by (simp add: not_less)
  from Cons.prems have "packet_loss_rate ?sim' = 0" and "[] \<notin> set rest"
    by (simp_all add: forward_chunk_config)
  with Cons.IH [of ?sim'] Cons.prems(1)
  have IH: "written (snd (forward src rest ?sim')) = rest
    \<and> packets_dropped (fst (forward src rest ?sim')) = packets_dropped ?sim'"
    by blast
  from Cons.prems have "data \<noteq> []" by auto
  with IH keep show ?case
    by (simp add: split_def written_append forward_chunk_kept_effect)
qed

text \<open>
  C5. Let every value of the generator lie in \<open>[0, 1)\<close> and every read before the end of
  stream be non-empty. The drop decision of a chunk is exactly "the value drawn is
  less than \<^verbatim>\<open>packet_loss_rate\<close>". A dropped chunk is never written and raises the
  dropped count by one; a chunk that is not dropped is written whole and leaves the
  dropped count alone; either way the sent count rises by one. With a loss rate of 1 a
  run of the loop writes nothing, and both the sent and the dropped count rise by the
  number of chunks read, so they stay equal if they were equal. With a loss rate of 0
  every chunk read is written, in order, and the dropped count does not change.
\<close>

theorem forward_drop_decision:
  assumes "\<forall>n. 0 \<le> src n \<and> src n < 1" and "[] \<notin> set chunks"
  shows "fst (should_drop_packet src sim) = (src (draws sim) < packet_loss_rate sim)
    \<and> (src (draws sim) < packet_loss_rate sim \<longrightarrow>
          written (snd (forward_chunk src data sim)) = []
        \<and> packets_dropped (fst (forward_chunk src data sim)) = packets_dropped sim + 1)
    \<and> (\<not> src (draws sim) < packet_loss_rate sim \<longrightarrow>
          written (snd (forward_chunk src data sim)) = [data]
        \<and> packets_dropped (fst (forward_chunk src data sim)) = packets_dropped sim)
    \<and> packets_sent (fst (forward_chunk src data sim)) = packets_sent sim + 1
    \<and> (packet_loss_rate sim = 1 \<longrightarrow>
          written (snd (forward src chunks sim)) = []
        \<and> packets_sent (fst (forward src chunks sim)) = packets_sent sim + length chunks
        \<and> packets_dropped (fst (forward src chunks sim)) = packets_dropped sim + length chunks
        \<and> (packets_dropped sim = packets_sent sim \<longrightarrow>
             packets_dropped (fst (forward src chunks sim))
             = packets_sent (fst (forward src chunks sim))))
    \<and> (packet_loss_rate sim = 0 \<longrightarrow>
          written (snd (forward src chunks sim)) = chunks
        \<and> packets_dropped (fst (forward src chunks sim)) = packets_dropped sim)"
proof -
  from assms have lt: "\<forall>n. src n < 1" and ge: "\<forall>n. 0 \<le> src n" by simp_all
  have decide: "fst (should_drop_packet src sim) = (src (draws sim) < packet_loss_rate sim)"
    by (simp add: should_drop_packet_def random_random_def)
  have dropped: "src (draws sim) < packet_loss_rate sim \<longrightarrow>
          written (snd (forward_chunk src data sim)) = []
        \<and> packets_dropped (fst (forward_chunk src data sim)) = packets_dropped sim + 1"
    by (simp add: forward_chunk_dropped)
  have kept: "\<not> src (draws sim) < packet_loss_rate sim \<longrightarrow>
          written (snd (forward_chunk src data sim)) = [data]
        \<and> packets_dropped (fst (forward_chunk src data sim)) = packets_dropped sim"
    by (simp add: forward_chunk_kept_effect)
  have sent: "packets_sent (fst (forward_chunk src data sim)) = packets_sent sim + 1"
    by (rule forward_chunk_config)
  have all: "packet_loss_rate sim = 1 \<longrightarrow>
          written (snd (forward src chunks sim)) = []
        \<and> packets_sent (fst (forward src chunks sim)) = packets_sent sim + length chunks
        \<and> packets_dropped (fst (forward src chunks sim)) = packets_dropped sim + length chunks
        \<and> (packets_dropped sim = packets_sent sim \<longrightarrow>
             packets_dropped (fst (forward src chunks sim))
             = packets_sent (fst (forward src chunks sim)))"
    using forward_all_dropped [OF lt _ assms(2), of sim] by simp
  have none: "packet_loss_rate sim = 0 \<longrightarrow>
          written (snd (forward src chunks sim)) = chunks
        \<and> packets_dropped (fst (forward src chunks sim)) = packets_dropped sim"
    using forward_none_dropped [OF ge _ assms(2), of sim] by simp
  from decide dropped kept sent all none show ?thesis by blast
qed

theorem forward_drop_decision_witness:
  "written (snd (forward (\<lambda>n. 1 / 2) [[7::nat], [8, 9]]
      (LatencySimulator ''localhost'' 3000 3001 100 1 0))) = []
   \<and> packets_sent (fst (forward (\<lambda>n. 1 / 2) [[7::nat], [8, 9]]
      (LatencySimulator ''localhost'' 3000 3001 100 1 0))) = 2
   \<and> packets_dropped (fst (forward (\<lambda>n. 1 / 2) [[7::nat], [8, 9]]
      (LatencySimulator ''localhost'' 3000 3001 100 1 0))) = 2
   \<and> written (snd (forward (\<lambda>n. 1 / 2) [[7::nat], [8, 9]]
      (LatencySimulator ''localhost'' 3000 3001 100 0 0))) = [[7], [8, 9]]
   \<and> packets_dropped (fst (forward (\<lambda>n. 1 / 2) [[7::nat], [8, 9]]
      (LatencySimulator ''localhost'' 3000 3001 100 0 0))) = 0"
  using forward_drop_decision [of "\<lambda>n. 1 / 2" "[[7::nat], [8, 9]]"
      "LatencySimulator ''localhost'' 3000 3001 100 1 0" "[7::nat]"]
    forward_drop_decision [of "\<lambda>n. 1 / 2" "[[7::nat], [8, 9]]"
      "LatencySimulator ''localhost'' 3000 3001 100 0 0" "[7::nat]"]
  by (simp add: LatencySimulator_def del: forward.simps)

subsection \<open>Delaying chunks\<close>

text \<open>The value \<^verbatim>\<open>random.uniform(-jitter_ms, jitter_ms)\<close> returns lies between the two
  bounds.\<close>

lemma random_uniform_jitter:
  "fst (random_uniform src (- j) j sim) = - j + 2 * j * src (draws sim)"
  "snd (random_uniform src (- j) j sim) = sim\<lparr>draws := draws sim + 1\<rparr>"
  by (simp_all add: random_uniform_def random_random_def)

lemma jitter_in_range:
  fixes j r :: real
  assumes "0 \<le> j" and "0 \<le> r" and "r < 1"
  shows "- j \<le> - j + 2 * j * r" and "- j + 2 * j * r \<le> j"
proof -
  from assms have "0 \<le> 2 * j * r" by simp
  then show "- j \<le> - j + 2 * j * r" by simp
  from assms have "j * r \<le> j * 1" by (intro mult_left_mono) simp_all
  then show "- j + 2 * j * r \<le> j" by simp
qed

lemma calculate_delay_value:
  assumes "0 \<le> base_latency_ms sim" and "0 \<le> jitter_ms sim"
  shows "calculate_delay src sim =
    (max 0 (base_latency_ms sim
            + (- jitter_ms sim + 2 * jitter_ms sim * src (draws sim))) / 1000,
     if jitter_ms sim > 0 then sim\<lparr>draws := draws sim + 1\<rparr> else sim)"
proof (cases "jitter_ms sim > 0")
  case True
  then show ?thesis
    by (simp add: calculate_delay_def delay_ms_def random_uniform_def random_random_def)
next
  case False
  with assms(2) have "jitter_ms sim = 0" by simp
  with assms(1) show ?thesis
    by (simp add: calculate_delay_def delay_ms_def)
qed

lemma calculate_delay_fixed:
  assumes "jitter_ms sim = 0"
  shows "calculate_delay src sim = (base_latency_ms sim / 1000, sim)"
  using assms by (simp add: calculate_delay_def delay_ms_def)

lemma delays_since_chunk:
  assumes "jitter_ms sim = 0" and "0 \<le> base_latency_ms sim"
  shows "delays_since 0 (snd (forward_chunk src data sim) @ rest) =
      (if src (draws sim) < packet_loss_rate sim then delays_since 0 rest
       else (base_latency_ms sim / 1000) # delays_since 0 rest)"
    and "written (snd (forward_chunk src data sim) @ rest) =
      (if src (draws sim) < packet_loss_rate sim then written rest
       else data # written rest)"
  using assms
  by (simp_all add: forward_chunk_dropped forward_chunk_kept calculate_delay_fixed)

lemma forward_fixed_delay:
  assumes "jitter_ms sim = 0" and "0 \<le> base_latency_ms sim"
  shows "imposed_delays (snd (forward src chunks sim)) =
    replicate (length (written (snd (forward src chunks sim)))) (base_latency_ms sim / 1000)"
  using assms
proof (induction chunks arbitrary: sim)
  case Nil
  then show ?case by (simp add: imposed_delays_def)
next
  case (Cons data rest)
  let ?sim' = "fst (forward_chunk src data sim)"
  from Cons.prems have cfg: "jitter_ms ?sim' = 0" "base_latency_ms ?sim' = base_latency_ms sim"
    by (simp_all add: forward_chunk_config)
  with Cons.IH [of ?sim'] Cons.prems
  have IH: "delays_since 0 (snd (forward src rest ?sim')) =
    replicate (length (written (snd (forward src rest ?sim')))) (base_latency_ms sim / 1000)"
    by (simp add: imposed_delays_def)
  show ?case
  proof (cases "data = []")
    case True
    then show ?thesis by (simp add: imposed_delays_def)
  next
    case False
    with IH Cons.prems show ?thesis
      by (simp add: split_def delays_since_chunk imposed_delays_def)
  qed
qed

text \<open>
  C6. Let the base latency and the jitter be non-negative and every value of the
  generator lie in \<open>[0, 1)\<close>, and write \<open>u k\<close> for \<open>- jitter_ms + 2 * jitter_ms * src k\<close>,
  the value \<^verbatim>\<open>random.uniform(-jitter_ms, jitter_ms)\<close> returns on the \<open>k\<close>-th value of the
  generator. Then \<open>u k\<close> lies between \<open>- jitter_ms\<close> and \<open>jitter_ms\<close>;
  \<^verbatim>\<open>calculate_delay\<close> returns, in seconds, \<open>max 0 (base_latency_ms + u k)\<close> milliseconds for
  the current \<open>k\<close>, which is never negative, and takes that one value from the generator
  exactly when the jitter is positive. For a chunk that is not dropped the loop does
  nothing but sleep that long (no sleep at all when the delay is 0) and then write
  the chunk, the draw being the one after the drop decision. With a jitter of 0 every
  chunk a run of the loop writes has been delayed by exactly \<open>base_latency_ms\<close>
  milliseconds.
\<close>

theorem forward_delay:
  assumes "0 \<le> base_latency_ms sim" and "0 \<le> jitter_ms sim"
    and "\<forall>n. 0 \<le> src n \<and> src n < 1"
  shows "(\<forall>k. - jitter_ms sim \<le> - jitter_ms sim + 2 * jitter_ms sim * src k
            \<and> - jitter_ms sim + 2 * jitter_ms sim * src k \<le> jitter_ms sim)
    \<and> (0 < jitter_ms sim \<longrightarrow>
          random_uniform src (- jitter_ms sim) (jitter_ms sim) sim
          = (- jitter_ms sim + 2 * jitter_ms sim * src (draws sim),
             sim\<lparr>draws := draws sim + 1\<rparr>))
    \<and> calculate_delay src sim =
         (max 0 (base_latency_ms sim
                 + (- jitter_ms sim + 2 * jitter_ms sim * src (draws sim))) / 1000,
          if 0 < jitter_ms sim then sim\<lparr>draws := draws sim + 1\<rparr> else sim)
    \<and> 0 \<le> fst (calculate_delay src sim)
    \<and> (\<not> src (draws sim) < packet_loss_rate sim \<longrightarrow>
          snd (forward_chunk src data sim) =
            (if 0 < max 0 (base_latency_ms sim
                    + (- jitter_ms sim + 2 * jitter_ms sim * src (draws sim + 1))) / 1000
             then [Sleep (max 0 (base_latency_ms sim
                    + (- jitter_ms sim + 2 * jitter_ms sim * src (draws sim + 1))) / 1000)]
             else []) @ [Write data]
        \<and> imposed_delays (snd (forward_chunk src data sim)) =
            [max 0 (base_latency_ms sim
                    + (- jitter_ms sim + 2 * jitter_ms sim * src (draws sim + 1))) / 1000])
    \<and> (jitter_ms sim = 0 \<longrightarrow>
         imposed_delays (snd (forward src chunks sim))
         = replicate (length (written (snd (forward src chunks sim))))
             (base_latency_ms sim / 1000))"
proof -
  have one: "\<forall>k. - jitter_ms sim \<le> - jitter_ms sim + 2 * jitter_ms sim * src k
            \<and> - jitter_ms sim + 2 * jitter_ms sim * src k \<le> jitter_ms sim"
    using jitter_in_range [OF assms(2)] assms(3) by blast
  have two: "0 < jitter_ms sim \<longrightarrow>
          random_uniform src (- jitter_ms sim) (jitter_ms sim) sim
          = (- jitter_ms sim + 2 * jitter_ms sim * src (draws sim),
             sim\<lparr>draws := draws sim + 1\<rparr>)"
    by (simp add: prod_eq_iff random_uniform_jitter)
  have three: "calculate_delay src sim =
         (max 0 (base_latency_ms sim
                 + (- jitter_ms sim + 2 * jitter_ms sim * src (draws sim))) / 1000,
          if 0 < jitter_ms sim then sim\<lparr>draws := draws sim + 1\<rparr> else sim)"
    by (rule calculate_delay_value [OF assms(1,2)])
  have four: "0 \<le> fst (calculate_delay src sim)"
    by (simp add: three)
  have five: "snd (forward_chunk src data sim) =
            (if 0 < max 0 (base_latency_ms sim
                    + (- jitter_ms sim + 2 * jitter_ms sim * src (draws sim + 1))) / 1000
             then [Sleep (max 0 (base_latency_ms sim
                    + (- jitter_ms sim + 2 * jitter_ms sim * src (draws sim + 1))) / 1000)]
             else []) @ [Write data]
        \<and> imposed_delays (snd (forward_chunk src data sim)) =
            [max 0 (base_latency_ms sim
                    + (- jitter_ms sim + 2 * jitter_ms sim * src (draws sim + 1))) / 1000]"
    if keep: "\<not> src (draws sim) < packet_loss_rate sim"
  proof -
    let ?sim2 = "sim\<lparr>packets_sent := packets_sent sim + 1, draws := draws sim + 1\<rparr>"
    from assms have "0 \<le> base_latency_ms ?sim2" "0 \<le> jitter_ms ?sim2" by simp_all
    from calculate_delay_value [OF this, of src]
    have d: "fst (calculate_delay src ?sim2) =
      max 0 (base_latency_ms sim
             + (- jitter_ms sim + 2 * jitter_ms sim * src (draws sim + 1))) / 1000"
      by simp
    have nonneg: "0 \<le> max 0 (base_latency_ms sim
             + (- jitter_ms sim + 2 * jitter_ms sim * src (draws sim + 1))) / 1000"
      by simp
    from keep d nonneg show ?thesis
      by (auto simp add: forward_chunk_kept split_def imposed_delays_def)
  qed
  have six: "jitter_ms sim = 0 \<longrightarrow>
         imposed_delays (snd (forward src chunks sim))
         = replicate (length (written (snd (forward src chunks sim))))
             (base_latency_ms sim / 1000)"
    using forward_fixed_delay [of sim src chunks] assms(1) by simp
  from one two three four five six show ?thesis by blast
qed

theorem forward_delay_witness:
  "calculate_delay (\<lambda>n. 1 / 2) (LatencySimulator ''localhost'' 3000 3001 100 0 0)
     = (1 / 10, LatencySimulator ''localhost'' 3000 3001 100 0 0)
   \<and> imposed_delays (snd (forward (\<lambda>n. 1 / 2) [[7::nat], [8, 9]]
       (LatencySimulator ''localhost'' 3000 3001 100 0 0))) = [1 / 10, 1 / 10]
   \<and> fst (calculate_delay (\<lambda>n. 3 / 4) (LatencySimulator ''localhost'' 3000 3001 100 0 20))
     = 11 / 100
   \<and> draws (snd (calculate_delay (\<lambda>n. 3 / 4)
       (LatencySimulator ''localhost'' 3000 3001 100 0 20))) = 1
   \<and> snd (forward_chunk (\<lambda>n. 3 / 4) [7::nat]
       (LatencySimulator ''localhost'' 3000 3001 100 0 20)) = [Sleep (11 / 100), Write [7]]
   \<and> fst (calculate_delay (\<lambda>n. 1 / 4) (LatencySimulator ''localhost'' 3000 3001 5 0 20)) = 0"
  using forward_delay [of "LatencySimulator ''localhost'' 3000 3001 100 0 0" "\<lambda>n. 1 / 2"
      "[7::nat]" "[[7::nat], [8, 9]]"]
    forward_delay [of "LatencySimulator ''localhost'' 3000 3001 100 0 20" "\<lambda>n. 3 / 4"
      "[7::nat]" "[[7::nat], [8, 9]]"]
    forward_delay [of "LatencySimulator ''localhost'' 3000 3001 5 0 20" "\<lambda>n. 1 / 4"
      "[7::nat]" "[[7::nat], [8, 9]]"]
  by (simp add: LatencySimulator_def calculate_delay_def delay_ms_def random_uniform_def
      random_random_def forward_chunk_def should_drop_packet_def imposed_delays_def)

subsection \<open>Rejected configurations\<close>

text \<open>
  C8, as stated, fails: with a packet loss rate of 2 \<^verbatim>\<open>main\<close> prints its line and returns,
  so the process exits with status 0.
\<close>

theorem main_invalid_loss_exits_zero:
  "exit_status (main (Parsed \<lparr>arg_target_host = ''localhost'', arg_target_port = 3000,
      arg_listen_port = 3001, arg_latency = 100, arg_jitter = 0,
      arg_packet_loss = Float 2\<rparr>))
   = Some 0"
  by (simp add: main_def exit_status_def)

text \<open>
  C8, amended. When the parser accepts the command line and the parsed packet loss
  rate is a number below 0 or above 1 or an infinity, or the parsed base latency is
  negative, \<^verbatim>\<open>main\<close> prints one diagnostic line (the one about the loss rate when the
  loss rate is the cause, the one about the latency otherwise) and returns before the
  simulator is constructed, so no listening socket is opened; the process then exits
  with status 0.
\<close>

theorem main_rejects_invalid_configuration:
  assumes "(\<exists>r. arg_packet_loss a = Float r \<and> (r < 0 \<or> 1 < r))
      \<or> arg_packet_loss a = PosInf \<or> arg_packet_loss a = NegInf
      \<or> arg_latency a < 0"
  shows "main (Parsed a) =
      Returned [if (\<exists>r. arg_packet_loss a = Float r \<and> (r < 0 \<or> 1 < r))
                   \<or> arg_packet_loss a = PosInf \<or> arg_packet_loss a = NegInf
                then ''Error: Packet loss must be between 0.0 and 1.0''
                else ''Error: Latency must be >= 0'']
    \<and> \<not> opens_listening_socket (main (Parsed a))
    \<and> exit_status (main (Parsed a)) = Some 0"
  using assms
  by (cases "arg_packet_loss a")
    (auto simp add: main_def opens_listening_socket_def exit_status_def)

theorem main_rejects_invalid_configuration_witness:
  "main (Parsed \<lparr>arg_target_host = ''localhost'', arg_target_port = 3000,
      arg_listen_port = 3001, arg_latency = - 5, arg_jitter = 0, arg_packet_loss = Float 0\<rparr>)
   = Returned [''Error: Latency must be >= 0'']
   \<and> main (Parsed \<lparr>arg_target_host = ''localhost'', arg_target_port = 3000,
      arg_listen_port = 3001, arg_latency = 100, arg_jitter = 0, arg_packet_loss = NegInf\<rparr>)
   = Returned [''Error: Packet loss must be between 0.0 and 1.0'']
   \<and> exit_status (main (Parsed \<lparr>arg_target_host = ''localhost'', arg_target_port = 3000,
      arg_listen_port = 3001, arg_latency = - 5, arg_jitter = 0, arg_packet_loss = Float 0\<rparr>))
   = Some 0"
  using main_rejects_invalid_configuration [of "\<lparr>arg_target_host = ''localhost'',
      arg_target_port = 3000, arg_listen_port = 3001, arg_latency = - 5, arg_jitter = 0,
      arg_packet_loss = Float 0\<rparr>"]
    main_rejects_invalid_configuration [of "\<lparr>arg_target_host = ''localhost'',
      arg_target_port = 3000, arg_listen_port = 3001, arg_latency = 100, arg_jitter = 0,
      arg_packet_loss = NegInf\<rparr>"]
  by (simp add: main_def opens_listening_socket_def exit_status_def)

text \<open>
  A rate of NaN passes both comparisons, so with a non-negative latency the simulator
  is started; a command line the parser refuses ends the process with status 2 before
  any check of \<^verbatim>\<open>main\<close>.
\<close>

lemma main_starts_on_nan:
  "arg_packet_loss a = NaN \<Longrightarrow> 0 \<le> arg_latency a \<Longrightarrow> main (Parsed a) = Started a"
  by (simp add: main_def)

lemma main_usage_error:
  "exit_status (main Usage_error) = Some 2 \<and> \<not> opens_listening_socket (main Usage_error)"
  by (simp add: main_def exit_status_def opens_listening_socket_def)

end
